theory Spec2Isabelle
  imports Complex_Main "HOL-Library.AList" "HOL-Library.Char_ord" "HOL-Library.List_Lexorder"
begin

section \<open>Data model\<close>

text \<open>
  The exceptions the modelled code can raise. \<open>KeyError\<close> is a failed dictionary lookup,
  \<open>IndexError\<close> a list index out of range, \<open>ZeroDivisionError\<close> a division by zero,
  \<open>TypeError\<close> a call with a missing argument or \<open>range\<close> applied to a number that is
  not an \<open>int\<close>, \<open>ValueError\<close> the error numpy raises for arguments of mismatched size
  and for the truth value of an array with several elements.
\<close>

datatype error = KeyError | IndexError | ZeroDivisionError | TypeError | ValueError

text \<open>
  Modelled from the spec: the class \<open>Ballot\<close> (\<open>votekit/ballot.py\<close>) is not among the
  sources. A ranking is a sequence of sets of candidate identifiers, the weight an exact
  rational; the remaining fields are the metadata and the cardinal scores the spec lists,
  with the defaults the tests check (\<open>test_ballot_init\<close>).
\<close>

record Ballot =
  ranking :: "string set list"
  weight :: rat
  voter_set :: "string set"
  ballot_id :: "string option"
  scores :: "(string \<times> rat) list"

text \<open>\<open>Ballot(ranking=r, weight=w)\<close>: every other field takes its default.\<close>

definition Ballot_new :: "string set list \<Rightarrow> rat \<Rightarrow> Ballot" where
  "Ballot_new r w = \<lparr>ranking = r, weight = w, voter_set = {}, ballot_id = None, scores = []\<rparr>"

text \<open>
  Modelled from the spec: the class \<open>PreferenceProfile\<close> (\<open>votekit/profile.py\<close>) is not
  among the sources. It holds the ballots in order and the candidates handed to the
  constructor, \<open>None\<close> when the caller gave none.
\<close>

record PreferenceProfile =
  ballots :: "Ballot list"
  candidates :: "string list option"

text \<open>
  Python's \<open>set(cand)\<close> for a string \<open>cand\<close>: the set of its characters, each a string of
  length one.
\<close>

definition py_set :: "string \<Rightarrow> string set" where
  "py_set cand = (\<lambda>c. [c]) ` set cand"

section \<open>Folding a ballot pool: \<open>Ballot_Generator.ballot_pool_to_profile\<close>\<close>

text \<open>
  A Python dictionary keeps its keys in insertion order, and storing under a key that is
  present keeps the key's place: an association list under \<^const>\<open>AList.update\<close>, read
  with \<^const>\<open>map_of\<close>. One turn of the first loop (lines 56 to 60) stores under the
  ranking's tuple the old count plus one, or one when the tuple is new.
\<close>

definition count_ranking :: "'k \<Rightarrow> ('k \<times> int) list \<Rightarrow> ('k \<times> int) list" where
  "count_ranking tuple_rank ranking_counts =
     AList.update tuple_rank
       (case map_of ranking_counts tuple_rank of Some c \<Rightarrow> c + 1 | None \<Rightarrow> 1)
       ranking_counts"

definition count_rankings :: "string list list \<Rightarrow> (string list \<times> int) list" where
  "count_rankings ballot_pool = fold count_ranking ballot_pool []"

text \<open>
  The second loop (lines 62 to 65) builds one ballot per entry of the dictionary, turning
  each candidate into a set with \<open>set(cand)\<close> and the count into a \<open>Fraction\<close>.
\<close>

definition ballot_pool_to_profile :: "string list list \<Rightarrow> string list \<Rightarrow> PreferenceProfile" where
  "ballot_pool_to_profile ballot_pool cands =
     \<lparr>ballots = map (\<lambda>(rnk, count). Ballot_new (map py_set rnk) (of_int count))
                  (count_rankings ballot_pool),
      candidates = Some cands\<rparr>"

text \<open>
  The keys of the dictionary after the first loop: the distinct rankings of the pool, in
  the order of their first occurrence. Each of them becomes one ballot of the profile.
\<close>

definition pool_keys :: "string list list \<Rightarrow> string list list" where
  "pool_keys ballot_pool = map fst (count_rankings ballot_pool)"

definition total_weight :: "PreferenceProfile \<Rightarrow> rat" where
  "total_weight pp = sum_list (map weight (ballots pp))"

section \<open>Python values and library functions\<close>

text \<open>A dictionary lookup \<open>d[k]\<close> and a list comprehension of lookups \<open>[d[c] for c in cs]\<close>.\<close>

definition dict_get :: "('k \<times> 'v) list \<Rightarrow> 'k \<Rightarrow> error + 'v" where
  "dict_get d k = (case map_of d k of None \<Rightarrow> Inl KeyError | Some v \<Rightarrow> Inr v)"

fun lookup_all :: "('k \<times> 'v) list \<Rightarrow> 'k list \<Rightarrow> error + 'v list" where
  "lookup_all d [] = Inr []"
| "lookup_all d (c # cs) =
     (case dict_get d c of
        Inl e \<Rightarrow> Inl e
      | Inr v \<Rightarrow> (case lookup_all d cs of Inl e \<Rightarrow> Inl e | Inr vs \<Rightarrow> Inr (v # vs)))"

text \<open>A list index \<open>xs[i]\<close> with \<open>i\<close> not negative.\<close>

definition list_get :: "'a list \<Rightarrow> nat \<Rightarrow> error + 'a" where
  "list_get xs i = (if i < length xs then Inr (xs ! i) else Inl IndexError)"

text \<open>
  Numbers. Proportions and supports are exact rationals (a \<open>Fraction\<close>, or a float read as
  the rational it stands for). \<open>int(x)\<close> truncates towards zero, \<open>round(x)\<close> rounds to the
  nearest integer and a half to the even neighbour, and \<open>range(n)\<close> is empty for a
  negative \<open>n\<close>.
\<close>

definition py_int :: "rat \<Rightarrow> int" where
  "py_int x = (if 0 \<le> x then \<lfloor>x\<rfloor> else \<lceil>x\<rceil>)"

definition py_round :: "rat \<Rightarrow> int" where
  "py_round x =
     (let f = \<lfloor>x\<rfloor>; d = x - of_int f
      in if d < 1 / 2 then f else if 1 / 2 < d then f + 1 else if even f then f else f + 1)"

text \<open>
  A number that is an \<open>int\<close> or is not (a float or a \<open>Fraction\<close>): the product with an
  \<open>int\<close> is an \<open>int\<close> only for an \<open>int\<close>, and \<open>range\<close> raises \<open>TypeError\<close> on anything
  else, whatever its value.
\<close>

datatype pynum = PyInt int | PyFloat rat

fun pynum_times :: "pynum \<Rightarrow> int \<Rightarrow> pynum" where
  "pynum_times (PyInt a) n = PyInt (a * n)"
| "pynum_times (PyFloat x) n = PyFloat (x * of_int n)"

fun py_range :: "pynum \<Rightarrow> error + nat list" where
  "py_range (PyInt n) = Inr [0..<nat n]"
| "py_range (PyFloat x) = Inl TypeError"

text \<open>
  The product \<open>number_of_ballots * p\<close> of an \<open>int\<close> and a proportion is a parameter of
  the model, the product as Python computes it: exact for a \<open>Fraction\<close>, rounded to the
  nearest double for a float. \<open>exact_mul\<close> is the product where Python computes it
  exactly: for a \<open>Fraction\<close>, and for a float when the exact product is itself a double
  (as \<open>10 * 0.875\<close>).
\<close>

type_synonym product = "int \<Rightarrow> rat \<Rightarrow> rat"

definition exact_mul :: product where
  "exact_mul n p = of_int n * p"

text \<open>\<open>list(s)\<close> for a string \<open>s\<close>: its characters, each a string of length one.\<close>

definition py_list :: "string \<Rightarrow> string list" where
  "py_list s = map (\<lambda>c. [c]) s"

text \<open>
  \<open>itertools.permutations(pool, r)\<close>: the tuples of \<open>r\<close> elements at distinct positions of
  the pool, in the lexicographic order of their positions; none when \<open>r\<close> exceeds the
  length of the pool.
\<close>

fun it_permutations :: "'a list \<Rightarrow> nat \<Rightarrow> 'a list list" where
  "it_permutations pool 0 = [[]]"
| "it_permutations pool (Suc r) =
     concat (map (\<lambda>i. map ((#) (pool ! i)) (it_permutations (take i pool @ drop (Suc i) pool) r))
                 [0..<length pool])"

text \<open>
  The random draws of numpy are parameters of the model: a function of the generator's
  state \<open>'r\<close> that returns the drawn value and the next state. What numpy checks before
  it draws is written out: \<open>numpy.random.choice\<close> raises \<open>ValueError\<close> when the
  population is empty, when the population and the probabilities differ in size, when a
  probability is negative, when the probabilities do not sum to 1 (numpy allows a
  deviation of the square root of the double's machine epsilon, \<open>2 ^ -26\<close>; the model
  takes the sum exactly), and, for a sample without replacement, when the sample is larger
  than the population or than the number of positive probabilities.
\<close>

type_synonym 'r sampler = "string list \<Rightarrow> nat \<Rightarrow> rat list \<Rightarrow> 'r \<Rightarrow> string list \<times> 'r"

text \<open>\<open>choice(a, sz, p=p, replace=False)\<close>: a sample of \<open>sz\<close> elements of \<open>a\<close>.\<close>

definition np_choice_sample ::
  "'r sampler \<Rightarrow> string list \<Rightarrow> nat \<Rightarrow> rat list \<Rightarrow> 'r \<Rightarrow> error + string list \<times> 'r" where
  "np_choice_sample draw a sz p rng =
     (if a = [] \<or> length p \<noteq> length a \<or> list_ex (\<lambda>x. x < 0) p
         \<or> 1 / 2 ^ 26 < \<bar>sum_list p - 1\<bar>
         \<or> length a < sz \<or> length (filter (\<lambda>x. 0 < x) p) < sz
      then Inl ValueError
      else Inr (draw a sz p rng))"

type_synonym 'r picker = "nat \<Rightarrow> rat list \<Rightarrow> 'r \<Rightarrow> nat \<times> 'r"

text \<open>
  \<open>np.random.choice(range(n), 1, p=p)[0]\<close>: one index below \<open>n\<close>. The drawn number is
  taken modulo \<open>n\<close>, so that every picker yields an element of the population.
\<close>

definition np_choice_index :: "'r picker \<Rightarrow> nat \<Rightarrow> rat list \<Rightarrow> 'r \<Rightarrow> error + nat \<times> 'r" where
  "np_choice_index pick n p rng =
     (if n = 0 \<or> length p \<noteq> n \<or> list_ex (\<lambda>x. x < 0) p
         \<or> 1 / 2 ^ 26 < \<bar>sum_list p - 1\<bar>
      then Inl ValueError
      else (let (i, rng1) = pick n p rng in Inr (i mod n, rng1)))"

text \<open>\<open>choice(a, p=p, replace=False)\<close> with no size: one element of \<open>a\<close>.\<close>

definition np_choice_one :: "'r picker \<Rightarrow> string list \<Rightarrow> rat list \<Rightarrow> 'r \<Rightarrow> error + string \<times> 'r" where
  "np_choice_one pick a p rng =
     (case np_choice_index pick (length a) p rng of
        Inl e \<Rightarrow> Inl e
      | Inr (i, rng1) \<Rightarrow> Inr (a ! i, rng1))"

text \<open>
  \<open>np.random.dirichlet(alpha)\<close>: a vector as long as \<open>alpha\<close>. The oracle gives the
  component at each position.
\<close>

type_synonym 'r dirichlet = "rat list \<Rightarrow> 'r \<Rightarrow> (nat \<Rightarrow> rat) \<times> 'r"

definition np_random_dirichlet :: "'r dirichlet \<Rightarrow> rat list \<Rightarrow> 'r \<Rightarrow> rat list \<times> 'r" where
  "np_random_dirichlet dir alpha rng =
     (let (v, rng1) = dir alpha rng in (map v [0..<length alpha], rng1))"

section \<open>The generators\<close>

text \<open>
  \<open>Ballot_Generator.__init__\<close> (lines 33 to 41): the ballot length defaults to the number
  of candidates. The subclasses with blocs add the preference intervals and the
  proportions of the blocs (\<open>PlackettLuce\<close> and \<open>BradleyTerry\<close>, whose constructors are
  the same), \<open>AlternatingCrossover\<close> the candidates and the crossover rates of each bloc.
\<close>

record Ballot_Generator =
  number_of_ballots :: int
  ballot_length :: nat
  self_candidates :: "string list"

record Bloc_Generator = Ballot_Generator +
  pref_interval_by_slate :: "(string \<times> (string \<times> rat) list) list"
  slate_voter_prop :: "(string \<times> rat) list"

record AlternatingCrossover = Bloc_Generator +
  slate_to_candidate :: "(string \<times> string list) list"
  slate_crossover_rate :: "(string \<times> (string \<times> pynum) list) list"

definition Ballot_Generator_init :: "int \<Rightarrow> string list \<Rightarrow> nat option \<Rightarrow> Ballot_Generator" where
  "Ballot_Generator_init n cands len =
     \<lparr>number_of_ballots = n,
      ballot_length = (case len of Some l \<Rightarrow> l | None \<Rightarrow> length cands),
      self_candidates = cands\<rparr>"

text \<open>
  \<open>PlackettLuce.__init__\<close> (lines 108 to 114) calls the parent's constructor and stores
  its two arguments. No statement of it raises: the result is always the object.
\<close>

definition PlackettLuce_init ::
  "(string \<times> (string \<times> rat) list) list \<Rightarrow> (string \<times> rat) list \<Rightarrow> int \<Rightarrow> string list \<Rightarrow> nat option
     \<Rightarrow> error + Bloc_Generator" where
  "PlackettLuce_init pref_interval prop n cands len =
     Inr (Ballot_Generator.extend (Ballot_Generator_init n cands len)
            (Bloc_Generator.fields pref_interval prop))"

subsection \<open>\<open>PlackettLuce.generate_ballots\<close>\<close>

text \<open>The inner loop (lines 129 to 139): one sample per turn, appended to the list.\<close>

fun draw_ballots ::
  "'r sampler \<Rightarrow> string list \<Rightarrow> nat \<Rightarrow> rat list \<Rightarrow> nat \<Rightarrow> 'r \<Rightarrow> error + string list list \<times> 'r" where
  "draw_ballots draw cands len p 0 rng = Inr ([], rng)"
| "draw_ballots draw cands len p (Suc n) rng =
     (case np_choice_sample draw cands len p rng of
        Inl e \<Rightarrow> Inl e
      | Inr (ballot, rng1) \<Rightarrow>
          (case draw_ballots draw cands len p n rng1 of
             Inl e \<Rightarrow> Inl e
           | Inr (bs, rng2) \<Rightarrow> Inr (ballot # bs, rng2)))"

text \<open>
  One turn of the outer loop (lines 124 to 139): the ballots of one bloc. Their number
  is \<open>int\<close> of the product \<open>mul\<close> computes.
\<close>

definition PlackettLuce_race ::
  "product \<Rightarrow> 'r sampler \<Rightarrow> ('a Bloc_Generator_scheme) \<Rightarrow> string \<Rightarrow> 'r
     \<Rightarrow> error + string list list \<times> 'r" where
  "PlackettLuce_race mul draw self race rng =
     (case dict_get (slate_voter_prop self) race of
        Inl e \<Rightarrow> Inl e
      | Inr prop \<Rightarrow>
          (let num_ballots_race = py_int (mul (number_of_ballots self) prop) in
           case dict_get (pref_interval_by_slate self) race of
             Inl e \<Rightarrow> Inl e
           | Inr pref_interval_dict \<Rightarrow>
               (case lookup_all pref_interval_dict (self_candidates self) of
                  Inl e \<Rightarrow> Inl e
                | Inr cand_support_vec \<Rightarrow>
                    draw_ballots draw (self_candidates self) (ballot_length self)
                      cand_support_vec (nat num_ballots_race) rng)))"

fun PlackettLuce_races ::
  "product \<Rightarrow> 'r sampler \<Rightarrow> ('a Bloc_Generator_scheme) \<Rightarrow> string list \<Rightarrow> string list list \<Rightarrow> 'r
     \<Rightarrow> error + string list list \<times> 'r" where
  "PlackettLuce_races mul draw self [] ballots_list rng = Inr (ballots_list, rng)"
| "PlackettLuce_races mul draw self (race # races) ballots_list rng =
     (case PlackettLuce_race mul draw self race rng of
        Inl e \<Rightarrow> Inl e
      | Inr (bs, rng1) \<Rightarrow> PlackettLuce_races mul draw self races (ballots_list @ bs) rng1)"

definition PlackettLuce_generate_ballots ::
  "product \<Rightarrow> 'r sampler \<Rightarrow> ('a Bloc_Generator_scheme) \<Rightarrow> 'r
     \<Rightarrow> error + PreferenceProfile \<times> 'r" where
  "PlackettLuce_generate_ballots mul draw self rng =
     (case PlackettLuce_races mul draw self (map fst (slate_voter_prop self)) [] rng of
        Inl e \<Rightarrow> Inl e
      | Inr (ballots_list, rng1) \<Rightarrow>
          Inr (ballot_pool_to_profile ballots_list (self_candidates self), rng1))"

subsection \<open>\<open>BradleyTerry._calc_prob\<close>\<close>

text \<open>
  The loop over \<open>j\<close> (lines 163 to 166) runs over \<open>range(i, len(ranking))\<close>, the loop over
  \<open>i\<close> (lines 160 to 166) over \<open>range(len(ranking))\<close>, and the loop over the rankings
  (lines 158 to 167) stores each product under its ranking.
\<close>

fun calc_prob_j :: "(string \<times> rat) list \<Rightarrow> string list \<Rightarrow> rat \<Rightarrow> nat list \<Rightarrow> rat \<Rightarrow> error + rat" where
  "calc_prob_j d rnk greater_cand_support [] prob = Inr prob"
| "calc_prob_j d rnk greater_cand_support (j # js) prob =
     (case dict_get d (rnk ! j) of
        Inl e \<Rightarrow> Inl e
      | Inr cand_support \<Rightarrow>
          if greater_cand_support + cand_support = 0 then Inl ZeroDivisionError
          else calc_prob_j d rnk greater_cand_support js
                 (prob * (greater_cand_support / (greater_cand_support + cand_support))))"

fun calc_prob_i :: "(string \<times> rat) list \<Rightarrow> string list \<Rightarrow> nat list \<Rightarrow> rat \<Rightarrow> error + rat" where
  "calc_prob_i d rnk [] prob = Inr prob"
| "calc_prob_i d rnk (i # ks) prob =
     (case dict_get d (rnk ! i) of
        Inl e \<Rightarrow> Inl e
      | Inr greater_cand_support \<Rightarrow>
          (case calc_prob_j d rnk greater_cand_support [i..<length rnk] prob of
             Inl e \<Rightarrow> Inl e
           | Inr prob1 \<Rightarrow> calc_prob_i d rnk ks prob1))"

definition ranking_prob :: "(string \<times> rat) list \<Rightarrow> string list \<Rightarrow> error + rat" where
  "ranking_prob d rnk = calc_prob_i d rnk [0..<length rnk] 1"

fun calc_prob_rankings ::
  "(string \<times> rat) list \<Rightarrow> string list list \<Rightarrow> (string list \<times> rat) list
     \<Rightarrow> error + (string list \<times> rat) list" where
  "calc_prob_rankings d [] ranking_to_prob = Inr ranking_to_prob"
| "calc_prob_rankings d (rnk # rest) ranking_to_prob =
     (case ranking_prob d rnk of
        Inl e \<Rightarrow> Inl e
      | Inr prob \<Rightarrow> calc_prob_rankings d rest (AList.update rnk prob ranking_to_prob))"

definition calc_prob ::
  "string list list \<Rightarrow> (string \<times> rat) list \<Rightarrow> error + (string list \<times> rat) list" where
  "calc_prob perms cand_support_dict = calc_prob_rankings cand_support_dict perms []"

text \<open>
  The probability in the spec's words: the product, over the pairs of a candidate and a
  candidate ranked after it, of the first one's support over the sum of both.
\<close>

fun spec_pairwise_prob :: "(string \<Rightarrow> rat) \<Rightarrow> string list \<Rightarrow> rat" where
  "spec_pairwise_prob support [] = 1"
| "spec_pairwise_prob support (c # rest) =
     prod_list (map (\<lambda>c'. support c / (support c + support c')) rest)
       * spec_pairwise_prob support rest"

definition support_of :: "(string \<times> rat) list \<Rightarrow> string \<Rightarrow> rat" where
  "support_of d c = (case map_of d c of Some v \<Rightarrow> v | None \<Rightarrow> 0)"

text \<open>Every candidate of the ranking has a positive support in the dictionary.\<close>

definition has_support :: "(string \<times> rat) list \<Rightarrow> string list \<Rightarrow> bool" where
  "has_support d rnk =
     list_all (\<lambda>c. case map_of d c of Some v \<Rightarrow> 0 < v | None \<Rightarrow> False) rnk"

subsection \<open>\<open>IAC.generate_ballots\<close>\<close>

text \<open>
  The loop (lines 100 to 102) draws each index from \<open>range(6)\<close> with the probabilities
  of the Dirichlet draw and reads the permutation at that index.
\<close>

fun IAC_draws ::
  "'r picker \<Rightarrow> string list list \<Rightarrow> rat list \<Rightarrow> nat \<Rightarrow> 'r \<Rightarrow> error + string list list \<times> 'r" where
  "IAC_draws pick perm_rankings draw_probabilites 0 rng = Inr ([], rng)"
| "IAC_draws pick perm_rankings draw_probabilites (Suc n) rng =
     (case np_choice_index pick 6 draw_probabilites rng of
        Inl e \<Rightarrow> Inl e
      | Inr (index, rng1) \<Rightarrow>
          (case list_get perm_rankings index of
             Inl e \<Rightarrow> Inl e
           | Inr ballot \<Rightarrow>
               (case IAC_draws pick perm_rankings draw_probabilites n rng1 of
                  Inl e \<Rightarrow> Inl e
                | Inr (bs, rng2) \<Rightarrow> Inr (ballot # bs, rng2))))"

definition IAC_generate_ballots ::
  "'r dirichlet \<Rightarrow> 'r picker \<Rightarrow> ('a Ballot_Generator_scheme) \<Rightarrow> 'r
     \<Rightarrow> error + PreferenceProfile \<times> 'r" where
  "IAC_generate_ballots dir pick self rng =
     (let perm_rankings = it_permutations (self_candidates self) (ballot_length self);
          (draw_probabilites, rng1) =
             np_random_dirichlet dir (replicate (length perm_rankings) 1) rng
      in case IAC_draws pick perm_rankings draw_probabilites (nat (number_of_ballots self)) rng1 of
           Inl e \<Rightarrow> Inl e
         | Inr (ballot_pool, rng2) \<Rightarrow>
             Inr (ballot_pool_to_profile ballot_pool (self_candidates self), rng2))"

subsection \<open>\<open>AlternatingCrossover.generate_ballots\<close>\<close>

text \<open>
  One turn of the innermost loop (lines 258 to 280). It reads the preferences of the
  current \<open>opposing_cands\<close> and \<open>bloc_cands\<close>, rebinds both names to \<open>list\<close> of one drawn
  candidate each, and builds the ballot: the bloc's list, or the two lists interleaved
  when the slates differ, cut to the ballot length.
\<close>

definition crossover_turn ::
  "'r picker \<Rightarrow> ('a AlternatingCrossover_scheme) \<Rightarrow> (string \<times> rat) list \<Rightarrow> bool
     \<Rightarrow> string list \<times> string list \<times> 'r
     \<Rightarrow> error + string list \<times> string list \<times> string list \<times> 'r" where
  "crossover_turn pick self pref_interval_dict differ st =
     (case st of (bloc_cands, opposing_cands, rng) \<Rightarrow>
        (case lookup_all pref_interval_dict opposing_cands of
           Inl e \<Rightarrow> Inl e
         | Inr pref_for_opposing \<Rightarrow>
        (case lookup_all pref_interval_dict bloc_cands of
           Inl e \<Rightarrow> Inl e
         | Inr pref_for_bloc \<Rightarrow>
        (case np_choice_one pick (self_candidates self) pref_for_bloc rng of
           Inl e \<Rightarrow> Inl e
         | Inr (c1, rng1) \<Rightarrow>
        (case np_choice_one pick (self_candidates self) pref_for_opposing rng1 of
           Inl e \<Rightarrow> Inl e
         | Inr (c2, rng2) \<Rightarrow>
             (let bloc_cands1 = py_list c1;
                  opposing_cands1 = py_list c2;
                  ballot = (if differ
                            then concat (map (\<lambda>(x, y). [x, y]) (zip opposing_cands1 bloc_cands1))
                            else bloc_cands1)
              in Inr (take (ballot_length self) ballot, bloc_cands1, opposing_cands1, rng2)))))))"

fun crossover_turns ::
  "'r picker \<Rightarrow> ('a AlternatingCrossover_scheme) \<Rightarrow> (string \<times> rat) list \<Rightarrow> bool \<Rightarrow> nat list
     \<Rightarrow> string list \<times> string list \<times> 'r \<Rightarrow> string list list
     \<Rightarrow> error + string list list \<times> 'r" where
  "crossover_turns pick self pref differ [] st ballots_list = Inr (ballots_list, snd (snd st))"
| "crossover_turns pick self pref differ (k # ks) st ballots_list =
     (case crossover_turn pick self pref differ st of
        Inl e \<Rightarrow> Inl e
      | Inr (ballot, bloc_cands, opposing_cands, rng1) \<Rightarrow>
          crossover_turns pick self pref differ ks (bloc_cands, opposing_cands, rng1)
            (ballots_list @ [ballot]))"

text \<open>
  One turn of the loop over the opposing slates (lines 251 to 280): the number of
  crossover ballots is the product \<open>crossover_rate * num_ballots_race\<close>, handed to
  \<open>range\<close> as it is.
\<close>

definition crossover_pairing ::
  "'r picker \<Rightarrow> ('a AlternatingCrossover_scheme) \<Rightarrow> string \<Rightarrow> int \<Rightarrow> (string \<times> pynum) list
     \<Rightarrow> (string \<times> rat) list \<Rightarrow> string \<Rightarrow> string list list \<Rightarrow> 'r
     \<Rightarrow> error + string list list \<times> 'r" where
  "crossover_pairing pick self slate num_ballots_race crossover_dict pref_interval_dict
       opposing_slate ballots_list rng =
     (case dict_get crossover_dict opposing_slate of
        Inl e \<Rightarrow> Inl e
      | Inr crossover_rate \<Rightarrow>
          (let crossover_ballots = pynum_times crossover_rate num_ballots_race in
           case dict_get (slate_to_candidate self) opposing_slate of
             Inl e \<Rightarrow> Inl e
           | Inr opposing_cands \<Rightarrow>
          (case dict_get (slate_to_candidate self) slate of
             Inl e \<Rightarrow> Inl e
           | Inr bloc_cands \<Rightarrow>
          (case py_range crossover_ballots of
             Inl e \<Rightarrow> Inl e
           | Inr turns \<Rightarrow>
               crossover_turns pick self pref_interval_dict (slate \<noteq> opposing_slate) turns
                 (bloc_cands, opposing_cands, rng) ballots_list))))"

fun crossover_pairings ::
  "'r picker \<Rightarrow> ('a AlternatingCrossover_scheme) \<Rightarrow> string \<Rightarrow> int \<Rightarrow> (string \<times> pynum) list
     \<Rightarrow> (string \<times> rat) list \<Rightarrow> string list \<Rightarrow> string list list \<Rightarrow> 'r
     \<Rightarrow> error + string list list \<times> 'r" where
  "crossover_pairings pick self slate n cd pd [] ballots_list rng = Inr (ballots_list, rng)"
| "crossover_pairings pick self slate n cd pd (opposing_slate # rest) ballots_list rng =
     (case crossover_pairing pick self slate n cd pd opposing_slate ballots_list rng of
        Inl e \<Rightarrow> Inl e
      | Inr (ballots_list1, rng1) \<Rightarrow>
          crossover_pairings pick self slate n cd pd rest ballots_list1 rng1)"

text \<open>One turn of the loop over the slates (lines 244 to 280).\<close>

definition crossover_slate ::
  "product \<Rightarrow> 'r picker \<Rightarrow> ('a AlternatingCrossover_scheme) \<Rightarrow> string \<Rightarrow> string list list \<Rightarrow> 'r
     \<Rightarrow> error + string list list \<times> 'r" where
  "crossover_slate mul pick self slate ballots_list rng =
     (case dict_get (slate_voter_prop self) slate of
        Inl e \<Rightarrow> Inl e
      | Inr prop \<Rightarrow>
          (let num_ballots_race = py_int (mul (number_of_ballots self) prop) in
           case dict_get (slate_crossover_rate self) slate of
             Inl e \<Rightarrow> Inl e
           | Inr crossover_dict \<Rightarrow>
          (case dict_get (pref_interval_by_slate self) slate of
             Inl e \<Rightarrow> Inl e
           | Inr pref_interval_dict \<Rightarrow>
               crossover_pairings pick self slate num_ballots_race crossover_dict
                 pref_interval_dict (map fst crossover_dict) ballots_list rng)))"

fun crossover_slates ::
  "product \<Rightarrow> 'r picker \<Rightarrow> ('a AlternatingCrossover_scheme) \<Rightarrow> string list \<Rightarrow> string list list \<Rightarrow> 'r
     \<Rightarrow> error + string list list \<times> 'r" where
  "crossover_slates mul pick self [] ballots_list rng = Inr (ballots_list, rng)"
| "crossover_slates mul pick self (slate # rest) ballots_list rng =
     (case crossover_slate mul pick self slate ballots_list rng of
        Inl e \<Rightarrow> Inl e
      | Inr (ballots_list1, rng1) \<Rightarrow> crossover_slates mul pick self rest ballots_list1 rng1)"

definition AlternatingCrossover_generate_ballots ::
  "product \<Rightarrow> 'r picker \<Rightarrow> ('a AlternatingCrossover_scheme) \<Rightarrow> 'r
     \<Rightarrow> error + PreferenceProfile \<times> 'r" where
  "AlternatingCrossover_generate_ballots mul pick self rng =
     (case crossover_slates mul pick self (map fst (slate_voter_prop self)) [] rng of
        Inl e \<Rightarrow> Inl e
      | Inr (ballots_list, rng1) \<Rightarrow>
          Inr (ballot_pool_to_profile ballots_list (self_candidates self), rng1))"

subsection \<open>\<open>OneDimSpatial.generate_ballots\<close>\<close>

text \<open>
  \<open>np.random.normal(loc, scale, sz)\<close>: an array of \<open>sz\<close> values \<open>loc + scale * z\<close>, each
  \<open>z\<close> a standard normal draw of the oracle. A negative size raises \<open>ValueError\<close>.
\<close>

type_synonym 'r noise = "nat \<Rightarrow> 'r \<Rightarrow> (nat \<Rightarrow> rat) \<times> 'r"

definition np_random_normal ::
  "'r noise \<Rightarrow> rat \<Rightarrow> rat \<Rightarrow> int \<Rightarrow> 'r \<Rightarrow> error + rat list \<times> 'r" where
  "np_random_normal noise loc scale sz rng =
     (if sz < 0 then Inl ValueError
      else (let (z, rng1) = noise (nat sz) rng
            in Inr (map (\<lambda>i. loc + scale * z i) [0..<nat sz], rng1)))"

text \<open>
  The dictionary comprehension of lines 295 to 297: every candidate gets an array of
  \<open>len(self.candidates)\<close> positions.
\<close>

fun candidate_positions ::
  "'r noise \<Rightarrow> nat \<Rightarrow> string list \<Rightarrow> (string \<times> rat list) list \<Rightarrow> 'r
     \<Rightarrow> error + (string \<times> rat list) list \<times> 'r" where
  "candidate_positions noise n [] d rng = Inr (d, rng)"
| "candidate_positions noise n (c # cs) d rng =
     (case np_random_normal noise 1 0 (int n) rng of
        Inl e \<Rightarrow> Inl e
      | Inr (v, rng1) \<Rightarrow> candidate_positions noise n cs (AList.update c v d) rng1)"

text \<open>
  \<open>sorted(distance_dict, key=distance_dict.get)\<close> compares the keys' arrays with \<open><\<close>
  and takes the truth value of the result, which numpy gives for an array of one element
  only. The sort is an insertion sort that keeps equal keys in their order.
\<close>

definition array_lt :: "rat list \<Rightarrow> rat list \<Rightarrow> error + bool" where
  "array_lt a b = (case map (\<lambda>(x, y). x < y) (zip a b) of [t] \<Rightarrow> Inr t | _ \<Rightarrow> Inl ValueError)"

fun insert_by_key ::
  "string \<times> rat list \<Rightarrow> (string \<times> rat list) list \<Rightarrow> error + (string \<times> rat list) list" where
  "insert_by_key x [] = Inr [x]"
| "insert_by_key x (y # ys) =
     (case array_lt (snd y) (snd x) of
        Inl e \<Rightarrow> Inl e
      | Inr lt \<Rightarrow>
          if lt then (case insert_by_key x ys of Inl e \<Rightarrow> Inl e | Inr zs \<Rightarrow> Inr (y # zs))
          else Inr (x # y # ys))"

fun py_sorted_by_key :: "(string \<times> rat list) list \<Rightarrow> error + (string \<times> rat list) list" where
  "py_sorted_by_key [] = Inr []"
| "py_sorted_by_key (x # xs) =
     (case py_sorted_by_key xs of Inl e \<Rightarrow> Inl e | Inr ys \<Rightarrow> insert_by_key x ys)"

text \<open>The loop over the voters (lines 302 to 307).\<close>

fun spatial_pool :: "(string \<times> rat list) list \<Rightarrow> rat list \<Rightarrow> error + string list list" where
  "spatial_pool candidate_position_dict [] = Inr []"
| "spatial_pool candidate_position_dict (vp # vps) =
     (case py_sorted_by_key
             (map (\<lambda>(c, v). (c, map (\<lambda>x. \<bar>x - vp\<bar>) v)) candidate_position_dict) of
        Inl e \<Rightarrow> Inl e
      | Inr distance_order \<Rightarrow>
          (case spatial_pool candidate_position_dict vps of
             Inl e \<Rightarrow> Inl e
           | Inr ballot_pool \<Rightarrow> Inr (map fst distance_order # ballot_pool)))"

text \<open>
  Line 309 calls \<open>ballot_pool_to_profile\<close> with the ballot pool alone: the parameter
  \<open>candidates\<close> has no default, so Python raises \<open>TypeError\<close> before the function's body
  runs.
\<close>

definition OneDimSpatial_generate_ballots ::
  "'r noise \<Rightarrow> ('a Ballot_Generator_scheme) \<Rightarrow> 'r \<Rightarrow> error + PreferenceProfile \<times> 'r" where
  "OneDimSpatial_generate_ballots noise self rng =
     (case candidate_positions noise (length (self_candidates self)) (self_candidates self) [] rng of
        Inl e \<Rightarrow> Inl e
      | Inr (candidate_position_dict, rng1) \<Rightarrow>
     (case np_random_normal noise 1 0 (number_of_ballots self) rng1 of
        Inl e \<Rightarrow> Inl e
      | Inr (voter_positions, rng2) \<Rightarrow>
     (case spatial_pool candidate_position_dict voter_positions of
        Inl e \<Rightarrow> Inl e
      | Inr ballot_pool \<Rightarrow> Inl TypeError)))"

section \<open>Cleaning: \<open>remove_empty_ballots\<close>\<close>

text \<open>
  The function copies objects, and the claim about it is about what it leaves alone, so
  the objects live in a store: a ballot object and a candidate list are cells, addressed
  by their position, and a new object is a new cell at the end. A profile object holds
  the addresses of its ballots and of its candidate list.
\<close>

record store =
  ballot_cells :: "Ballot list"
  cands_cells :: "string list list"

record PreferenceProfile_obj =
  ballot_refs :: "nat list"
  cands_ref :: "nat option"

text \<open>The profile an object stands for in a store.\<close>

definition profile_value :: "store \<Rightarrow> PreferenceProfile_obj \<Rightarrow> PreferenceProfile" where
  "profile_value s pp =
     \<lparr>ballots = map (\<lambda>r. ballot_cells s ! r) (ballot_refs pp),
      candidates = map_option (\<lambda>r. cands_cells s ! r) (cands_ref pp)\<rparr>"

definition wf_profile :: "store \<Rightarrow> PreferenceProfile_obj \<Rightarrow> bool" where
  "wf_profile s pp =
     (list_all (\<lambda>r. r < length (ballot_cells s)) (ballot_refs pp) \<and>
      (case cands_ref pp of None \<Rightarrow> True | Some r \<Rightarrow> r < length (cands_cells s)))"

text \<open>
  Modelled from the spec: \<open>PreferenceProfile.get_ballots\<close> and \<open>get_candidates\<close> are not
  among the sources. The first returns the ballots. The second returns the candidates
  given to the constructor and, when none were given, the candidates mentioned in the
  ballots' rankings and scores (Python lists the elements of a set in no specified
  order; the model lists them sorted).
\<close>

definition get_ballots :: "PreferenceProfile_obj \<Rightarrow> nat list" where
  "get_ballots pp = ballot_refs pp"

definition get_candidates :: "PreferenceProfile \<Rightarrow> string list" where
  "get_candidates pp =
     (case candidates pp of
        Some cs \<Rightarrow> cs
      | None \<Rightarrow>
          sorted_list_of_set
            (\<Union> (set (concat (map ranking (ballots pp))))
               \<union> set (concat (map (\<lambda>b. map fst (scores b)) (ballots pp)))))"

text \<open>\<open>deepcopy\<close> of a ballot and of a candidate list: a new cell with the same content.\<close>

definition deepcopy_ballot :: "store \<Rightarrow> nat \<Rightarrow> nat \<times> store" where
  "deepcopy_ballot s r =
     (length (ballot_cells s), s\<lparr>ballot_cells := ballot_cells s @ [ballot_cells s ! r]\<rparr>)"

definition deepcopy_cands :: "store \<Rightarrow> string list \<Rightarrow> nat \<times> store" where
  "deepcopy_cands s cs = (length (cands_cells s), s\<lparr>cands_cells := cands_cells s @ [cs]\<rparr>)"

text \<open>The list comprehension of lines 12 to 14.\<close>

fun copy_nonempty :: "store \<Rightarrow> nat list \<Rightarrow> nat list \<times> store" where
  "copy_nonempty s [] = ([], s)"
| "copy_nonempty s (r # rs) =
     (if ranking (ballot_cells s ! r) \<noteq> []
      then (let (r1, s1) = deepcopy_ballot s r;
                (rs1, s2) = copy_nonempty s1 rs
            in (r1 # rs1, s2))
      else copy_nonempty s rs)"

definition remove_empty_ballots ::
  "store \<Rightarrow> PreferenceProfile_obj \<Rightarrow> bool \<Rightarrow> PreferenceProfile_obj \<times> store" where
  "remove_empty_ballots s pp keep_candidates =
     (let (ballots_nonempty, s1) = copy_nonempty s (get_ballots pp)
      in if keep_candidates
         then (let (old_cands, s2) = deepcopy_cands s1 (get_candidates (profile_value s1 pp))
               in (\<lparr>ballot_refs = ballots_nonempty, cands_ref = Some old_cands\<rparr>, s2))
         else (\<lparr>ballot_refs = ballots_nonempty, cands_ref = None\<rparr>, s1))"

section \<open>Folding the ballot list of a profile\<close>

text \<open>
  \<open>ballot_pool_to_profile\<close> is written for rankings of names, but Python lets a caller
  hand it any list. The rankings of a profile's ballots are lists of sets, so an element
  of a ranking is a name or a set of names (a block). The test
  \<open>tuple_rank in ranking_counts\<close> of line 59 hashes the tuple, and with it every element:
  a \<open>str\<close> is hashable, a \<open>set\<close> is not, and Python raises \<open>TypeError\<close>. \<open>set(cand)\<close> of a
  set is the set itself.
\<close>

datatype entry = Name string | Block "string set"

fun hashable :: "entry \<Rightarrow> bool" where
  "hashable (Name s) = True"
| "hashable (Block b) = False"

fun entry_set :: "entry \<Rightarrow> string set" where
  "entry_set (Name s) = py_set s"
| "entry_set (Block b) = b"

text \<open>The first loop (lines 56 to 60) on such rankings, and the function as a whole.\<close>

fun count_entries ::
  "entry list list \<Rightarrow> (entry list \<times> int) list \<Rightarrow> error + (entry list \<times> int) list" where
  "count_entries [] ranking_counts = Inr ranking_counts"
| "count_entries (tuple_rank # rest) ranking_counts =
     (if list_all hashable tuple_rank
      then count_entries rest (count_ranking tuple_rank ranking_counts)
      else Inl TypeError)"

definition ballot_pool_to_profile_any ::
  "entry list list \<Rightarrow> string list \<Rightarrow> error + PreferenceProfile" where
  "ballot_pool_to_profile_any ballot_pool cands =
     (case count_entries ballot_pool [] of
        Inl e \<Rightarrow> Inl e
      | Inr ranking_counts \<Rightarrow>
          Inr \<lparr>ballots = map (\<lambda>(rnk, count). Ballot_new (map entry_set rnk) (of_int count))
                            ranking_counts,
               candidates = Some cands\<rparr>)"


section \<open>A sampler for running the model\<close>

text \<open>
  A sampler without state that returns the first \<open>sz\<close> elements of the population. It
  stands for one possible run of \<open>numpy.random.choice\<close>.
\<close>

definition first_sampler :: "unit sampler" where
  "first_sampler a sz p rng = (take sz a, rng)"

section \<open>Weight conservation\<close>

lemma sum_count_ranking:
  "sum_list (map snd (count_ranking t rc)) = sum_list (map snd rc) + 1"
  unfolding count_ranking_def
  by (induction rc) (auto split: option.splits)

lemma sum_fold_count_ranking:
  "sum_list (map snd (fold count_ranking pool rc)) = sum_list (map snd rc) + int (length pool)"
  by (induction pool arbitrary: rc) (simp_all add: sum_count_ranking)

lemma sum_count_rankings: "sum_list (map snd (count_rankings pool)) = int (length pool)"
  by (simp add: count_rankings_def sum_fold_count_ranking)

lemma weight_of_entries:
  "sum_list (map weight (map (\<lambda>(rnk, count). Ballot_new (map py_set rnk) (of_int count)) rc))
     = of_int (sum_list (map snd rc))"
  by (induction rc) (auto simp: Ballot_new_def)

lemma total_weight_pool:
  "total_weight (ballot_pool_to_profile pool cands) = of_nat (length pool)"
  by (simp add: total_weight_def ballot_pool_to_profile_def weight_of_entries sum_count_rankings
        del: map_map)

text \<open>
  C1. For every ballot pool and every candidate list, the weights of the ballots of the
  profile \<open>ballot_pool_to_profile\<close> returns add up to the number of rankings in the pool,
  as an exact rational.
\<close>

theorem ballot_pool_to_profile_total_weight:
  "total_weight (ballot_pool_to_profile ballot_pool cands) = of_nat (length ballot_pool)"
  by (rule total_weight_pool)

section \<open>The keys of the folded pool\<close>

lemma keys_count_ranking:
  "map fst (count_ranking t rc) = (if t \<in> fst ` set rc then map fst rc else map fst rc @ [t])"
  unfolding count_ranking_def by (simp add: update_keys)

lemma distinct_fold_count_ranking:
  "distinct (map fst rc) \<Longrightarrow> distinct (map fst (fold count_ranking pool rc))"
  by (induction pool arbitrary: rc) (simp_all add: keys_count_ranking)

lemma distinct_pool_keys: "distinct (pool_keys pool)"
  by (simp add: pool_keys_def count_rankings_def distinct_fold_count_ranking)

lemma set_keys_count_ranking: "set (map fst (count_ranking t rc)) = insert t (fst ` set rc)"
  by (auto simp: keys_count_ranking)

lemma set_fold_count_ranking:
  "fst ` set (fold count_ranking pool rc) = fst ` set rc \<union> set pool"
proof (induction pool arbitrary: rc)
  case Nil
  then show ?case by simp
next
  case (Cons t pool)
  have "fst ` set (count_ranking t rc) = insert t (fst ` set rc)"
    using set_keys_count_ranking[of t rc] by simp
  then show ?case using Cons[of "count_ranking t rc"] by auto
qed

lemma set_pool_keys: "set (pool_keys pool) = set pool"
  using set_fold_count_ranking[of pool "[]"] by (simp add: pool_keys_def count_rankings_def)


text \<open>
  Every entry of the dictionary holds the number of occurrences of its ranking in the
  pool, a positive integer.
\<close>

lemma map_of_count_ranking:
  "map_of (count_ranking t rc) = (map_of rc)(t \<mapsto> (case map_of rc t of Some c \<Rightarrow> c + 1 | None \<Rightarrow> 1))"
  by (simp add: count_ranking_def update_conv')

lemma map_of_fold_count_ranking:
  "map_of (fold count_ranking pool rc) k =
     (if k \<in> set pool
      then Some ((case map_of rc k of Some c \<Rightarrow> c | None \<Rightarrow> 0) + int (count_list pool k))
      else map_of rc k)"
proof (induction pool arbitrary: rc)
  case Nil
  then show ?case by simp
next
  case (Cons t pool)
  show ?case
    by (simp add: Cons.IH map_of_count_ranking split: option.splits)
qed

lemma count_rankings_entry:
  assumes "(k, c) \<in> set (count_rankings pool)"
  shows "c = int (count_list pool k) \<and> 0 < c"
proof -
  have "distinct (map fst (count_rankings pool))"
    using distinct_pool_keys[of pool] by (simp add: pool_keys_def)
  with assms have m: "map_of (count_rankings pool) k = Some c" by simp
  have "k \<in> set pool"
    using assms set_pool_keys[of pool] by (force simp: pool_keys_def)
  with m have "c = int (count_list pool k)"
    by (simp add: count_rankings_def map_of_fold_count_ranking)
  moreover have "0 < count_list pool k"
    using \<open>k \<in> set pool\<close> count_list_0_iff[of pool k] by simp
  ultimately show ?thesis by simp
qed

section \<open>Folding a folded profile again\<close>

text \<open>
  On rankings of names the function of the last section is \<open>ballot_pool_to_profile\<close>.
\<close>

lemma map_of_inj_keys:
  "inj f \<Longrightarrow> map_of (map (\<lambda>(k, c). (f k, c)) rc) (f t) = map_of rc t"
  by (induction rc) (auto simp: inj_eq)

lemma update_inj_keys:
  "inj f \<Longrightarrow> AList.update (f t) v (map (\<lambda>(k, c). (f k, c)) rc)
                 = map (\<lambda>(k, c). (f k, c)) (AList.update t v rc)"
  by (induction rc) (auto simp: inj_eq)

lemma count_ranking_inj_keys:
  "inj f \<Longrightarrow> count_ranking (f t) (map (\<lambda>(k, c). (f k, c)) rc)
                 = map (\<lambda>(k, c). (f k, c)) (count_ranking t rc)"
  by (simp add: count_ranking_def map_of_inj_keys update_inj_keys)

lemma inj_map_Name: "inj (map Name)"
  by (simp add: inj_on_def)

lemma hashable_names: "list_all hashable (map Name rnk)"
  by (induction rnk) simp_all

lemma count_entries_names:
  "count_entries (map (map Name) pool) (map (\<lambda>(k, c). (map Name k, c)) rc)
     = Inr (map (\<lambda>(k, c). (map Name k, c)) (fold count_ranking pool rc))"
  by (induction pool arbitrary: rc)
     (simp_all add: hashable_names count_ranking_inj_keys[OF inj_map_Name])

lemma ballot_pool_to_profile_any_names:
  "ballot_pool_to_profile_any (map (map Name) pool) cands
     = Inr (ballot_pool_to_profile pool cands)"
  using count_entries_names[of pool "[]"]
  by (simp add: ballot_pool_to_profile_any_def ballot_pool_to_profile_def count_rankings_def
      comp_def split_def)


lemma hashable_blocks: "list_all hashable (map Block rnk) = (rnk = [])"
  by (cases rnk) simp_all







section \<open>One ballot per ranking\<close>

text \<open>
  C10. The profile has one ballot per distinct ranking of the pool, but \<open>set(cand)\<close>
  takes a candidate's name apart into its characters: the rankings \<open>["ab"]\<close> and
  \<open>["ba"]\<close> are two keys of the dictionary and give two ballots with the same ranking
  \<open>[{"a", "b"}]\<close>. The keys themselves are distinct (lemma \<open>distinct_pool_keys\<close>) and
  carry the right counts (lemma \<open>count_rankings_entry\<close>).
\<close>

theorem ballot_pool_to_profile_shared_ranking:
  "ballots (ballot_pool_to_profile [[''ab''], [''ba'']] [''ab'', ''ba''])
     = [Ballot_new [{''a'', ''b''}] 1, Ballot_new [{''a'', ''b''}] 1]"
  by (simp add: ballot_pool_to_profile_def count_rankings_def count_ranking_def py_set_def
      Ballot_new_def insert_commute)

section \<open>Bradley-Terry probabilities\<close>

text \<open>
  For positive supports the code's value for a ranking of \<open>n\<close> candidates is the product
  over the pairs of the spec divided by \<open>2 ^ n\<close>: one factor one half for each candidate
  paired with itself.
\<close>

lemma has_support_get:
  "has_support d rnk \<Longrightarrow> j < length rnk
     \<Longrightarrow> dict_get d (rnk ! j) = Inr (support_of d (rnk ! j)) \<and> 0 < support_of d (rnk ! j)"
  by (auto simp: has_support_def list_all_length dict_get_def support_of_def split: option.splits)

lemma calc_prob_j_eq:
  assumes "has_support d rnk" and "0 < g"
  shows "list_all (\<lambda>j. j < length rnk) js \<Longrightarrow>
     calc_prob_j d rnk g js prob
       = Inr (prob * prod_list (map (\<lambda>j. g / (g + support_of d (rnk ! j))) js))"
proof (induction js arbitrary: prob)
  case Nil
  then show ?case by simp
next
  case (Cons j js)
  then have "j < length rnk" by simp
  from has_support_get[OF assms(1) this] assms(2) Cons show ?case
    by (simp add: mult.assoc)
qed

lemma calc_prob_i_eq:
  assumes "has_support d rnk"
  shows "list_all (\<lambda>i. i < length rnk) ks \<Longrightarrow>
     calc_prob_i d rnk ks prob
       = Inr (prob * prod_list (map (\<lambda>i. prod_list (map (\<lambda>j. support_of d (rnk ! i)
                  / (support_of d (rnk ! i) + support_of d (rnk ! j))) [i..<length rnk])) ks))"
proof (induction ks arbitrary: prob)
  case Nil
  then show ?case by simp
next
  case (Cons i ks)
  then have i: "i < length rnk" by simp
  have js: "list_all (\<lambda>j. j < length rnk) [i..<length rnk]"
    by (simp add: list_all_iff)
  from has_support_get[OF assms i] have g: "dict_get d (rnk ! i) = Inr (support_of d (rnk ! i))"
    and pos: "0 < support_of d (rnk ! i)" by simp_all
  show ?case
    using Cons by (simp add: g calc_prob_j_eq[OF assms pos js] mult.assoc)
qed

lemma upt_split_map: "map h [0..<Suc n] = h 0 # map (\<lambda>i. h (Suc i)) [0..<n]"
  by (simp add: upt_conv_Cons map_Suc_upt[symmetric] comp_def del: upt_Suc)

lemma map_nth_drop: "map (\<lambda>j. h (xs ! j)) [i..<length xs] = map h (drop i xs)"
  by (rule nth_equalityI) simp_all

lemma suffix_product:
  "list_all (\<lambda>c. 0 < s c) xs \<Longrightarrow>
   prod_list (map (\<lambda>i. prod_list (map (\<lambda>c'. s (xs ! i) / (s (xs ! i) + s c')) (drop i xs)))
                  [0..<length xs])
     = spec_pairwise_prob s xs / 2 ^ length xs"
proof (induction xs)
  case Nil
  then show ?case by simp
next
  case (Cons c rest)
  then have pos: "0 < s c" and rest: "list_all (\<lambda>c. 0 < s c) rest" by simp_all
  have half: "s c / (s c + s c) = 1 / 2" using pos by (simp add: field_simps)
  have nz: "s c \<noteq> 0" using pos by simp
  show ?case
    using Cons.IH[OF rest] nz by (simp add: upt_split_map half del: upt_Suc)
qed

lemma index_product:
  "list_all (\<lambda>c. 0 < s c) rnk \<Longrightarrow>
   prod_list (map (\<lambda>i. prod_list (map (\<lambda>j. s (rnk ! i) / (s (rnk ! i) + s (rnk ! j)))
                                     [i..<length rnk])) [0..<length rnk])
     = spec_pairwise_prob s rnk / 2 ^ length rnk"
proof -
  assume pos: "list_all (\<lambda>c. 0 < s c) rnk"
  have inner: "map (\<lambda>j. s (rnk ! i) / (s (rnk ! i) + s (rnk ! j))) [i..<length rnk]
                 = map (\<lambda>c'. s (rnk ! i) / (s (rnk ! i) + s c')) (drop i rnk)" for i
    by (rule map_nth_drop)
  show ?thesis
    using suffix_product[OF pos] by (simp only: inner)
qed

lemma has_support_pos: "has_support d rnk \<Longrightarrow> list_all (\<lambda>c. 0 < support_of d c) rnk"
  by (induction rnk) (auto simp: has_support_def support_of_def split: option.splits)

lemma ranking_prob_halved:
  assumes "has_support d rnk"
  shows "ranking_prob d rnk = Inr (spec_pairwise_prob (support_of d) rnk / 2 ^ length rnk)"
proof -
  have "list_all (\<lambda>i. i < length rnk) [0..<length rnk]" by (simp add: list_all_iff)
  from calc_prob_i_eq[OF assms this, of 1] index_product[OF has_support_pos[OF assms]]
  show ?thesis by (simp add: ranking_prob_def)
qed

text \<open>
  C2. The loop over \<open>j\<close> starts at \<open>i\<close>, so every candidate is also paired with itself
  and contributes a factor one half. For the supports \<open>a: 1\<close> and \<open>b: 3\<close> the code gives
  the ranking \<open>(a, b)\<close> the value 1/16 and \<open>(b, a)\<close> the value 3/16, where the product over
  the pairs of the spec is 1/4 and 3/4 (in general, lemma \<open>ranking_prob_halved\<close>).
\<close>

theorem calc_prob_pairs_with_itself:
  "calc_prob [[''a'', ''b''], [''b'', ''a'']] [(''a'', 1), (''b'', 3)]
     = Inr [([''a'', ''b''], 1 / 16), ([''b'', ''a''], 3 / 16)]
   \<and> spec_pairwise_prob (support_of [(''a'', 1), (''b'', 3)]) [''a'', ''b''] = 1 / 4
   \<and> spec_pairwise_prob (support_of [(''a'', 1), (''b'', 3)]) [''b'', ''a''] = 3 / 4"
  by (simp add: calc_prob_def ranking_prob_def dict_get_def support_of_def upt_rec)

section \<open>The number of ballots of a bloc\<close>

lemma floor_numeral_div:
  "\<lfloor>numeral a / numeral b :: rat\<rfloor> = numeral a div numeral b"
  using floor_divide_of_int_eq[of "numeral a" "numeral b", where ?'a = rat] by simp

lemma draw_ballots_length:
  "draw_ballots draw cands len p n rng = Inr (bs, rng') \<Longrightarrow> length bs = n"
  by (induction n arbitrary: bs rng) (auto split: sum.splits prod.splits)

lemma draw_ballots_first_sampler:
  "np_choice_sample first_sampler cands len p () = Inr (take len cands, ())
     \<Longrightarrow> draw_ballots first_sampler cands len p n () = Inr (replicate n (take len cands), ())"
  by (induction n) simp_all

lemma np_choice_sample_example:
  "np_choice_sample first_sampler [''a'', ''b'', ''c''] 2 [1 / 10, 1 / 2, 2 / 5] ()
     = Inr (take 2 [''a'', ''b'', ''c''], ())"
  by (simp add: np_choice_sample_def first_sampler_def)

lemma draw_ballots_example:
  "draw_ballots first_sampler [''a'', ''b'', ''c''] 2 [1 / 10, 1 / 2, 2 / 5] n ()
     = Inr (replicate n [''a'', ''b''], ())"
  using draw_ballots_first_sampler[OF np_choice_sample_example, of n] by simp

lemma PlackettLuce_race_example:
  "PlackettLuce_race exact_mul first_sampler (\<lparr>number_of_ballots = 10, ballot_length = 2, self_candidates = [''a'', ''b'', ''c''],
      pref_interval_by_slate =
        [(''white'', [(''a'', 1 / 10), (''b'', 1 / 2), (''c'', 2 / 5)]),
         (''black'', [(''a'', 1 / 5), (''b'', 1 / 2), (''c'', 3 / 10)])],
      slate_voter_prop = [(''white'', 7 / 8), (''black'', 1 / 8)]\<rparr>) ''white'' ()
     = Inr (replicate 8 [''a'', ''b''], ())"
proof -
  have "py_int (exact_mul 10 (7 / 8)) = 8"
    by (simp add: py_int_def exact_mul_def floor_numeral_div)
  then show ?thesis
    by (simp add: PlackettLuce_race_def dict_get_def Let_def draw_ballots_example)
qed

text \<open>
  C3, as the spec states it: the bloc gets \<open>round(number_of_ballots * p)\<close> ballots. With
  10 ballots and the proportion 0.875 the product is 8.75, the loop of the bloc draws 8
  ballots, and \<open>round(8.75)\<close> is 9.
\<close>

theorem PlackettLuce_race_not_rounded:
  "PlackettLuce_race exact_mul first_sampler (\<lparr>number_of_ballots = 10, ballot_length = 2, self_candidates = [''a'', ''b'', ''c''],
      pref_interval_by_slate =
        [(''white'', [(''a'', 1 / 10), (''b'', 1 / 2), (''c'', 2 / 5)]),
         (''black'', [(''a'', 1 / 5), (''b'', 1 / 2), (''c'', 3 / 10)])],
      slate_voter_prop = [(''white'', 7 / 8), (''black'', 1 / 8)]\<rparr>) ''white'' ()
     = Inr (replicate 8 [''a'', ''b''], ())
   \<and> length (replicate 8 [''a'', ''b'']) = 8
   \<and> py_round (exact_mul 10 (7 / 8)) = 9"
  by (simp add: PlackettLuce_race_example py_round_def exact_mul_def floor_numeral_div Let_def)

text \<open>
  C3, amended. For every bloc with proportion \<open>p\<close>, a run of the bloc's loop that returns
  has drawn exactly \<open>int(number_of_ballots * p)\<close> ballots: the product as Python computes
  it, truncated towards zero, not rounded to the nearest integer.
\<close>

theorem PlackettLuce_race_truncates:
  assumes "dict_get (slate_voter_prop self) race = Inr prop"
    and "PlackettLuce_race mul draw self race rng = Inr (bs, rng')"
  shows "length bs = nat (py_int (mul (number_of_ballots self) prop))"
  using assms
  by (auto simp: PlackettLuce_race_def Let_def split: sum.splits dest: draw_ballots_length)

theorem PlackettLuce_race_truncates_witness:
  "dict_get (slate_voter_prop (\<lparr>number_of_ballots = 10, ballot_length = 2, self_candidates = [''a'', ''b'', ''c''],
      pref_interval_by_slate =
        [(''white'', [(''a'', 1 / 10), (''b'', 1 / 2), (''c'', 2 / 5)]),
         (''black'', [(''a'', 1 / 5), (''b'', 1 / 2), (''c'', 3 / 10)])],
      slate_voter_prop = [(''white'', 7 / 8), (''black'', 1 / 8)]\<rparr>)) ''white'' = Inr (7 / 8)
   \<and> PlackettLuce_race exact_mul first_sampler (\<lparr>number_of_ballots = 10, ballot_length = 2, self_candidates = [''a'', ''b'', ''c''],
      pref_interval_by_slate =
        [(''white'', [(''a'', 1 / 10), (''b'', 1 / 2), (''c'', 2 / 5)]),
         (''black'', [(''a'', 1 / 5), (''b'', 1 / 2), (''c'', 3 / 10)])],
      slate_voter_prop = [(''white'', 7 / 8), (''black'', 1 / 8)]\<rparr>) ''white'' ()
       = Inr (replicate 8 [''a'', ''b''], ())
   \<and> length (replicate 8 [''a'', ''b''])
       = nat (py_int (exact_mul (number_of_ballots (\<lparr>number_of_ballots = 10, ballot_length = 2, self_candidates = [''a'', ''b'', ''c''],
      pref_interval_by_slate =
        [(''white'', [(''a'', 1 / 10), (''b'', 1 / 2), (''c'', 2 / 5)]),
         (''black'', [(''a'', 1 / 5), (''b'', 1 / 2), (''c'', 3 / 10)])],
      slate_voter_prop = [(''white'', 7 / 8), (''black'', 1 / 8)]\<rparr>)) (7 / 8)))"
proof -
  let ?g = "(\<lparr>number_of_ballots = 10, ballot_length = 2, self_candidates = [''a'', ''b'', ''c''],
      pref_interval_by_slate =
        [(''white'', [(''a'', 1 / 10), (''b'', 1 / 2), (''c'', 2 / 5)]),
         (''black'', [(''a'', 1 / 5), (''b'', 1 / 2), (''c'', 3 / 10)])],
      slate_voter_prop = [(''white'', 7 / 8), (''black'', 1 / 8)]\<rparr>)"
  have p: "dict_get (slate_voter_prop ?g) ''white'' = Inr (7 / 8)"
    by (simp add: dict_get_def)
  have r: "PlackettLuce_race exact_mul first_sampler ?g ''white'' ()
             = Inr (replicate 8 [''a'', ''b''], ())"
    by (rule PlackettLuce_race_example)
  have "length (replicate 8 [''a'', ''b''])
       = nat (py_int (exact_mul (number_of_ballots ?g) (7 / 8)))"
    by (rule PlackettLuce_race_truncates[OF p r])
  with p r show ?thesis by blast
qed

section \<open>Construction of a generator\<close>

text \<open>
  C4. The constructor checks nothing. It returns the object for proportions that add up
  to 6/5, and for preference intervals that lack the bloc \<open>black\<close>; the missing bloc
  shows only in \<open>generate_ballots\<close>, as a \<open>KeyError\<close>, whatever the number of ballots
  drawn for the bloc \<open>white\<close> before.
\<close>

theorem PlackettLuce_init_accepts:
  "PlackettLuce_init
      [(''white'', [(''a'', 1 / 10), (''b'', 1 / 2), (''c'', 2 / 5)]),
       (''black'', [(''a'', 1 / 5), (''b'', 1 / 2), (''c'', 3 / 10)])]
      [(''white'', 4 / 5), (''black'', 2 / 5)] 5 [''a'', ''b'', ''c''] (Some 2)
    = Inr \<lparr>number_of_ballots = 5, ballot_length = 2, self_candidates = [''a'', ''b'', ''c''],
      pref_interval_by_slate =
        [(''white'', [(''a'', 1 / 10), (''b'', 1 / 2), (''c'', 2 / 5)]),
         (''black'', [(''a'', 1 / 5), (''b'', 1 / 2), (''c'', 3 / 10)])],
      slate_voter_prop = [(''white'', 4 / 5), (''black'', 2 / 5)]\<rparr>
   \<and> sum_list (map snd [(''white'', 4 / 5 :: rat), (''black'', 2 / 5)]) = 6 / 5
   \<and> PlackettLuce_init
      [(''white'', [(''a'', 1 / 10), (''b'', 1 / 2), (''c'', 2 / 5)])]
      [(''white'', 4 / 5), (''black'', 1 / 5)] 5 [''a'', ''b'', ''c''] (Some 2)
    = Inr \<lparr>number_of_ballots = 5, ballot_length = 2, self_candidates = [''a'', ''b'', ''c''],
      pref_interval_by_slate =
        [(''white'', [(''a'', 1 / 10), (''b'', 1 / 2), (''c'', 2 / 5)])],
      slate_voter_prop = [(''white'', 4 / 5), (''black'', 1 / 5)]\<rparr>
   \<and> PlackettLuce_generate_ballots mul first_sampler
      \<lparr>number_of_ballots = 5, ballot_length = 2, self_candidates = [''a'', ''b'', ''c''],
      pref_interval_by_slate =
        [(''white'', [(''a'', 1 / 10), (''b'', 1 / 2), (''c'', 2 / 5)])],
      slate_voter_prop = [(''white'', 4 / 5), (''black'', 1 / 5)]\<rparr> ()
    = Inl KeyError"
  by (simp add: PlackettLuce_init_def Ballot_Generator_init_def Ballot_Generator.extend_def
       Bloc_Generator.fields_def Bloc_Generator.defs Ballot_Generator.defs
       PlackettLuce_generate_ballots_def PlackettLuce_race_def dict_get_def Let_def
       draw_ballots_example)

section \<open>The index drawn by the IAC generator\<close>

lemma length_np_random_dirichlet:
  "length (fst (np_random_dirichlet dir alpha rng)) = length alpha"
  by (simp add: np_random_dirichlet_def split_def Let_def)

lemma IAC_draws_wrong_size:
  "length p \<noteq> 6 \<Longrightarrow> 0 < n \<Longrightarrow> IAC_draws pick perms p n rng = Inl ValueError"
  by (cases n) (simp_all add: np_choice_index_def)

lemma IAC_wrong_size:
  assumes "0 < number_of_ballots self"
    and "length (it_permutations (self_candidates self) (ballot_length self)) \<noteq> 6"
  shows "IAC_generate_ballots dir pick self rng = Inl ValueError"
proof -
  let ?perms = "it_permutations (self_candidates self) (ballot_length self)"
  obtain p rng1 where d: "np_random_dirichlet dir (replicate (length ?perms) 1) rng = (p, rng1)"
    by (cases "np_random_dirichlet dir (replicate (length ?perms) 1) rng")
  have "length p = length ?perms"
    using length_np_random_dirichlet[of dir "replicate (length ?perms) 1" rng] d by simp
  then have "IAC_draws pick ?perms p (nat (number_of_ballots self)) rng1 = Inl ValueError"
    using assms by (intro IAC_draws_wrong_size) auto
  then show ?thesis by (simp add: IAC_generate_ballots_def Let_def d)
qed

lemma length_permutations_four:
  "length (it_permutations [''a'', ''b'', ''c'', ''d''] 4) = 24"
  by code_simp

text \<open>
  C5. The index is drawn from \<open>range(6)\<close>, whatever the number of permutations. Four
  candidates have 24 full rankings, the probabilities have length 24, and the first draw
  raises \<open>ValueError\<close>: no ballot is drawn from the permutations.
\<close>

theorem IAC_generate_ballots_four_candidates:
  "IAC_generate_ballots dir pick (Ballot_Generator_init 1 [''a'', ''b'', ''c'', ''d''] None) rng
     = Inl ValueError"
proof (rule IAC_wrong_size)
  let ?self = "Ballot_Generator_init 1 [''a'', ''b'', ''c'', ''d''] None"
  show "0 < number_of_ballots ?self" by (simp add: Ballot_Generator_init_def)
  have "self_candidates ?self = [''a'', ''b'', ''c'', ''d'']" and "ballot_length ?self = 4"
    by (simp_all add: Ballot_Generator_init_def)
  then show "length (it_permutations (self_candidates ?self) (ballot_length ?self)) \<noteq> 6"
    by (simp only: length_permutations_four)
qed

section \<open>Crossover ballots\<close>

text \<open>
  C6. The number of crossover ballots is the product of the rate and the bloc's number
  of ballots, not rounded, and goes to \<open>range\<close> as it is; no loop draws loyal ballots.
  With the rate 0.25 and a bloc of 4 ballots the product is the float 1.0, and \<open>range\<close>
  raises \<open>TypeError\<close>.
\<close>

theorem AlternatingCrossover_float_rate:
  "AlternatingCrossover_generate_ballots mul pick
     \<lparr>number_of_ballots = 5, ballot_length = 3, self_candidates = [''a'', ''b'', ''c''],
      pref_interval_by_slate =
        [(''white'', [(''a'', 1 / 10), (''b'', 1 / 2), (''c'', 2 / 5)]),
         (''black'', [(''a'', 1 / 5), (''b'', 1 / 2), (''c'', 3 / 10)])],
      slate_voter_prop = [(''white'', 4 / 5), (''black'', 1 / 5)],
      slate_to_candidate = [(''white'', [''a'', ''b'']), (''black'', [''c''])],
      slate_crossover_rate =
        [(''white'', [(''black'', PyFloat (1 / 4))]), (''black'', [(''white'', PyFloat (1 / 2))])]\<rparr>
     rng = Inl TypeError"
  by (simp add: AlternatingCrossover_generate_ballots_def crossover_slate_def
      crossover_pairing_def dict_get_def)

section \<open>The spatial generator\<close>

lemma OneDimSpatial_never_returns:
  "\<exists>e. OneDimSpatial_generate_ballots noise self rng = Inl e"
  by (simp add: OneDimSpatial_generate_ballots_def split: sum.splits prod.splits)

lemma OneDimSpatial_three_candidates:
  "OneDimSpatial_generate_ballots noise (Ballot_Generator_init 5 [''a'', ''b'', ''c''] None) rng
     = Inl ValueError"
  by (simp add: OneDimSpatial_generate_ballots_def Ballot_Generator_init_def np_random_normal_def
      split_def Let_def array_lt_def numeral_eq_Suc)

text \<open>
  C8. The last line calls \<open>ballot_pool_to_profile\<close> without the candidates, so no run
  returns a profile. With one voter and the one candidate \<open>a\<close> the ballot pool is built
  and the call raises \<open>TypeError\<close>.
\<close>

theorem OneDimSpatial_generate_ballots_raises:
  "OneDimSpatial_generate_ballots noise (Ballot_Generator_init 1 [''a''] None) rng = Inl TypeError"
  by (simp add: OneDimSpatial_generate_ballots_def Ballot_Generator_init_def np_random_normal_def
      split_def Let_def)

section \<open>Removing the empty ballots\<close>

lemma nth_append_fresh:
  "map ((!) (xs @ ys)) [length xs..<length xs + length ys] = ys"
  by (rule nth_equalityI) (simp_all add: nth_append)

lemma map_nth_append_old:
  "list_all (\<lambda>r. r < length xs) rs \<Longrightarrow> map ((!) (xs @ ys)) rs = map ((!) xs) rs"
  by (induction rs) (simp_all add: nth_append)

lemma upt_Cons_shift: "[n..<n + Suc k] = n # [Suc n..<Suc n + k]"
  using upt_conv_Cons[of n "n + Suc k"] by simp

lemma copy_nonempty_eq:
  "list_all (\<lambda>r. r < length (ballot_cells s)) rs \<Longrightarrow>
   copy_nonempty s rs =
     ([length (ballot_cells s)..<
         length (ballot_cells s)
           + length (filter (\<lambda>b. ranking b \<noteq> []) (map ((!) (ballot_cells s)) rs))],
      s\<lparr>ballot_cells :=
           ballot_cells s @ filter (\<lambda>b. ranking b \<noteq> []) (map ((!) (ballot_cells s)) rs)\<rparr>)"
proof (induction rs arbitrary: s)
  case Nil
  then show ?case by simp
next
  case (Cons r rs)
  define e where "e = filter (\<lambda>b. ranking b \<noteq> []) (map ((!) (ballot_cells s)) rs)"
  from Cons.prems have rs: "list_all (\<lambda>r. r < length (ballot_cells s)) rs" by simp
  show ?case
  proof (cases "ranking (ballot_cells s ! r) \<noteq> []")
    case False
    then have "filter (\<lambda>b. ranking b \<noteq> []) (map ((!) (ballot_cells s)) (r # rs)) = e"
      by (simp add: e_def)
    moreover have "copy_nonempty s (r # rs) = copy_nonempty s rs"
      using False by simp
    ultimately show ?thesis
      using Cons.IH[OF rs] by (simp only: e_def)
  next
    case True
    let ?s1 = "s\<lparr>ballot_cells := ballot_cells s @ [ballot_cells s ! r]\<rparr>"
    have "list_all (\<lambda>r. r < length (ballot_cells ?s1)) rs"
      using rs by (induction rs) simp_all
    then have ih0: "copy_nonempty ?s1 rs =
       ([length (ballot_cells ?s1)..<
           length (ballot_cells ?s1)
             + length (filter (\<lambda>b. ranking b \<noteq> []) (map ((!) (ballot_cells ?s1)) rs))],
        ?s1\<lparr>ballot_cells :=
             ballot_cells ?s1 @ filter (\<lambda>b. ranking b \<noteq> []) (map ((!) (ballot_cells ?s1)) rs)\<rparr>)"
      by (rule Cons.IH)
    have same: "map ((!) (ballot_cells ?s1)) rs = map ((!) (ballot_cells s)) rs"
      using map_nth_append_old[OF rs] by simp
    have ih: "copy_nonempty ?s1 rs =
       ([Suc (length (ballot_cells s))..<Suc (length (ballot_cells s)) + length e],
        s\<lparr>ballot_cells := ballot_cells s @ (ballot_cells s ! r) # e\<rparr>)"
      using ih0[unfolded same, folded e_def] by simp
    have ext: "filter (\<lambda>b. ranking b \<noteq> []) (map ((!) (ballot_cells s)) (r # rs))
                 = (ballot_cells s ! r) # e"
      using True by (simp add: e_def)
    have step: "copy_nonempty s (r # rs) =
       (length (ballot_cells s)
          # [Suc (length (ballot_cells s))..<Suc (length (ballot_cells s)) + length e],
        s\<lparr>ballot_cells := ballot_cells s @ (ballot_cells s ! r) # e\<rparr>)"
      using True by (simp add: deepcopy_ballot_def ih)
    show ?thesis unfolding ext length_Cons upt_Cons_shift by (rule step)
  qed
qed

text \<open>
  C9. In a store where the profile's references are valid, \<open>remove_empty_ballots\<close>
  returns a profile whose ballots are the input's ballots with a ranking that is not
  empty, in the input's order; the input profile reads the same before and after, no
  cell of the store that existed before is changed, the ballots of the result are new
  cells; and the result has the input's candidates when \<open>keep_candidates\<close> is true and
  none of its own otherwise.
\<close>

theorem remove_empty_ballots_frame:
  assumes wf: "wf_profile s pp"
    and run: "remove_empty_ballots s pp keep_candidates = (pp_clean, s')"
  shows "ballots (profile_value s' pp_clean)
           = filter (\<lambda>b. ranking b \<noteq> []) (ballots (profile_value s pp))
       \<and> profile_value s' pp = profile_value s pp
       \<and> take (length (ballot_cells s)) (ballot_cells s') = ballot_cells s
       \<and> take (length (cands_cells s)) (cands_cells s') = cands_cells s
       \<and> list_all (\<lambda>r. length (ballot_cells s) \<le> r) (ballot_refs pp_clean)
       \<and> candidates (profile_value s' pp_clean)
           = (if keep_candidates then Some (get_candidates (profile_value s pp)) else None)"
proof -
  define ext where
    "ext = filter (\<lambda>b. ranking b \<noteq> []) (map ((!) (ballot_cells s)) (ballot_refs pp))"
  define n where "n = length (ballot_cells s)"
  define s1 where "s1 = s\<lparr>ballot_cells := ballot_cells s @ ext\<rparr>"
  define cs where "cs = get_candidates (profile_value s pp)"
  from wf have refs: "list_all (\<lambda>r. r < length (ballot_cells s)) (ballot_refs pp)"
    by (simp add: wf_profile_def)
  have cp: "copy_nonempty s (get_ballots pp) = ([n..<n + length ext], s1)"
    unfolding get_ballots_def ext_def n_def s1_def by (rule copy_nonempty_eq[OF refs])
  have old: "map ((!) (ballot_cells s @ ext)) (ballot_refs pp)
               = map ((!) (ballot_cells s)) (ballot_refs pp)"
    by (rule map_nth_append_old[OF refs])
  have new: "map ((!) (ballot_cells s @ ext)) [n..<n + length ext] = ext"
    unfolding n_def by (rule nth_append_fresh)
  have before: "ballots (profile_value s pp) = map ((!) (ballot_cells s)) (ballot_refs pp)"
    by (simp add: profile_value_def)
  have pv1: "profile_value s1 pp = profile_value s pp"
    using old by (simp add: profile_value_def s1_def)
  have s1_cells: "ballot_cells s1 = ballot_cells s @ ext"
    and s1_cands: "cands_cells s1 = cands_cells s"
    by (simp_all add: s1_def)
  have out: "pp_clean = \<lparr>ballot_refs = [n..<n + length ext],
                cands_ref = (if keep_candidates then Some (length (cands_cells s)) else None)\<rparr>"
    and cells: "ballot_cells s' = ballot_cells s @ ext"
    and cands: "cands_cells s' = cands_cells s @ (if keep_candidates then [cs] else [])"
    using run s1_cells s1_cands
    by (auto simp: remove_empty_ballots_def cp pv1 deepcopy_cands_def cs_def split: if_splits)
  have c1: "ballots (profile_value s' pp_clean) = ext"
    using new by (simp add: profile_value_def out cells)
  have cref: "map_option (\<lambda>r. cands_cells s' ! r) (cands_ref pp)
            = map_option (\<lambda>r. cands_cells s ! r) (cands_ref pp)"
    using wf by (cases "cands_ref pp") (simp_all add: wf_profile_def cands nth_append)
  have c2: "profile_value s' pp = profile_value s pp"
    using old cref by (simp add: profile_value_def cells)
  have c5: "list_all (\<lambda>r. length (ballot_cells s) \<le> r) (ballot_refs pp_clean)"
    by (simp add: out list_all_iff n_def)
  have c6: "candidates (profile_value s' pp_clean)
           = (if keep_candidates then Some (get_candidates (profile_value s pp)) else None)"
    by (simp add: profile_value_def out cands cs_def)
  have c1': "ballots (profile_value s' pp_clean)
           = filter (\<lambda>b. ranking b \<noteq> []) (ballots (profile_value s pp))"
    by (simp only: c1 before ext_def)
  from c1' c2 c5 c6 show ?thesis by (simp add: cells cands)
qed

theorem remove_empty_ballots_frame_witness:
  "wf_profile (\<lparr>ballot_cells = [Ballot_new [{''a''}, {''b''}] 1, Ballot_new [] 2, Ballot_new [{''b''}] 3],
          cands_cells = [[''a'', ''b'', ''c'']]\<rparr>) (\<lparr>ballot_refs = [0, 1, 2], cands_ref = Some 0\<rparr>)
   \<and> remove_empty_ballots (\<lparr>ballot_cells = [Ballot_new [{''a''}, {''b''}] 1, Ballot_new [] 2, Ballot_new [{''b''}] 3],
          cands_cells = [[''a'', ''b'', ''c'']]\<rparr>) (\<lparr>ballot_refs = [0, 1, 2], cands_ref = Some 0\<rparr>) True = ((\<lparr>ballot_refs = [3, 4], cands_ref = Some 1\<rparr>), (\<lparr>ballot_cells = [Ballot_new [{''a''}, {''b''}] 1, Ballot_new [] 2, Ballot_new [{''b''}] 3,
                             Ballot_new [{''a''}, {''b''}] 1, Ballot_new [{''b''}] 3],
          cands_cells = [[''a'', ''b'', ''c''], [''a'', ''b'', ''c'']]\<rparr>))
   \<and> ballots (profile_value (\<lparr>ballot_cells = [Ballot_new [{''a''}, {''b''}] 1, Ballot_new [] 2, Ballot_new [{''b''}] 3,
                             Ballot_new [{''a''}, {''b''}] 1, Ballot_new [{''b''}] 3],
          cands_cells = [[''a'', ''b'', ''c''], [''a'', ''b'', ''c'']]\<rparr>) (\<lparr>ballot_refs = [3, 4], cands_ref = Some 1\<rparr>))
       = filter (\<lambda>b. ranking b \<noteq> []) (ballots (profile_value (\<lparr>ballot_cells = [Ballot_new [{''a''}, {''b''}] 1, Ballot_new [] 2, Ballot_new [{''b''}] 3],
          cands_cells = [[''a'', ''b'', ''c'']]\<rparr>) (\<lparr>ballot_refs = [0, 1, 2], cands_ref = Some 0\<rparr>)))
   \<and> profile_value (\<lparr>ballot_cells = [Ballot_new [{''a''}, {''b''}] 1, Ballot_new [] 2, Ballot_new [{''b''}] 3,
                             Ballot_new [{''a''}, {''b''}] 1, Ballot_new [{''b''}] 3],
          cands_cells = [[''a'', ''b'', ''c''], [''a'', ''b'', ''c'']]\<rparr>) (\<lparr>ballot_refs = [0, 1, 2], cands_ref = Some 0\<rparr>) = profile_value (\<lparr>ballot_cells = [Ballot_new [{''a''}, {''b''}] 1, Ballot_new [] 2, Ballot_new [{''b''}] 3],
          cands_cells = [[''a'', ''b'', ''c'']]\<rparr>) (\<lparr>ballot_refs = [0, 1, 2], cands_ref = Some 0\<rparr>)
   \<and> take (length (ballot_cells (\<lparr>ballot_cells = [Ballot_new [{''a''}, {''b''}] 1, Ballot_new [] 2, Ballot_new [{''b''}] 3],
          cands_cells = [[''a'', ''b'', ''c'']]\<rparr>))) (ballot_cells (\<lparr>ballot_cells = [Ballot_new [{''a''}, {''b''}] 1, Ballot_new [] 2, Ballot_new [{''b''}] 3,
                             Ballot_new [{''a''}, {''b''}] 1, Ballot_new [{''b''}] 3],
          cands_cells = [[''a'', ''b'', ''c''], [''a'', ''b'', ''c'']]\<rparr>)) = ballot_cells (\<lparr>ballot_cells = [Ballot_new [{''a''}, {''b''}] 1, Ballot_new [] 2, Ballot_new [{''b''}] 3],
          cands_cells = [[''a'', ''b'', ''c'']]\<rparr>)
   \<and> take (length (cands_cells (\<lparr>ballot_cells = [Ballot_new [{''a''}, {''b''}] 1, Ballot_new [] 2, Ballot_new [{''b''}] 3],
          cands_cells = [[''a'', ''b'', ''c'']]\<rparr>))) (cands_cells (\<lparr>ballot_cells = [Ballot_new [{''a''}, {''b''}] 1, Ballot_new [] 2, Ballot_new [{''b''}] 3,
                             Ballot_new [{''a''}, {''b''}] 1, Ballot_new [{''b''}] 3],
          cands_cells = [[''a'', ''b'', ''c''], [''a'', ''b'', ''c'']]\<rparr>)) = cands_cells (\<lparr>ballot_cells = [Ballot_new [{''a''}, {''b''}] 1, Ballot_new [] 2, Ballot_new [{''b''}] 3],
          cands_cells = [[''a'', ''b'', ''c'']]\<rparr>)
   \<and> list_all (\<lambda>r. length (ballot_cells (\<lparr>ballot_cells = [Ballot_new [{''a''}, {''b''}] 1, Ballot_new [] 2, Ballot_new [{''b''}] 3],
          cands_cells = [[''a'', ''b'', ''c'']]\<rparr>)) \<le> r) (ballot_refs (\<lparr>ballot_refs = [3, 4], cands_ref = Some 1\<rparr>))
   \<and> candidates (profile_value (\<lparr>ballot_cells = [Ballot_new [{''a''}, {''b''}] 1, Ballot_new [] 2, Ballot_new [{''b''}] 3,
                             Ballot_new [{''a''}, {''b''}] 1, Ballot_new [{''b''}] 3],
          cands_cells = [[''a'', ''b'', ''c''], [''a'', ''b'', ''c'']]\<rparr>) (\<lparr>ballot_refs = [3, 4], cands_ref = Some 1\<rparr>))
       = (if True then Some (get_candidates (profile_value (\<lparr>ballot_cells = [Ballot_new [{''a''}, {''b''}] 1, Ballot_new [] 2, Ballot_new [{''b''}] 3],
          cands_cells = [[''a'', ''b'', ''c'']]\<rparr>) (\<lparr>ballot_refs = [0, 1, 2], cands_ref = Some 0\<rparr>))) else None)"
proof -
  have wf: "wf_profile (\<lparr>ballot_cells = [Ballot_new [{''a''}, {''b''}] 1, Ballot_new [] 2, Ballot_new [{''b''}] 3],
          cands_cells = [[''a'', ''b'', ''c'']]\<rparr>) (\<lparr>ballot_refs = [0, 1, 2], cands_ref = Some 0\<rparr>)"
    by (simp add: wf_profile_def)
  have run: "remove_empty_ballots (\<lparr>ballot_cells = [Ballot_new [{''a''}, {''b''}] 1, Ballot_new [] 2, Ballot_new [{''b''}] 3],
          cands_cells = [[''a'', ''b'', ''c'']]\<rparr>) (\<lparr>ballot_refs = [0, 1, 2], cands_ref = Some 0\<rparr>) True = ((\<lparr>ballot_refs = [3, 4], cands_ref = Some 1\<rparr>), (\<lparr>ballot_cells = [Ballot_new [{''a''}, {''b''}] 1, Ballot_new [] 2, Ballot_new [{''b''}] 3,
                             Ballot_new [{''a''}, {''b''}] 1, Ballot_new [{''b''}] 3],
          cands_cells = [[''a'', ''b'', ''c''], [''a'', ''b'', ''c'']]\<rparr>))"
    by (simp add: remove_empty_ballots_def get_ballots_def deepcopy_ballot_def
        deepcopy_cands_def get_candidates_def profile_value_def Ballot_new_def)
  from wf run remove_empty_ballots_frame[OF wf run] show ?thesis by blast
qed

end
